theory Spec2Isabelle
  imports Main "HOL-Library.Word"
begin

section \<open>Data model of serial.go\<close>

text \<open>
  A shallow embedding of the Go package \<open>serial\<close> (file \<open>serial.go\<close>).  A
  \<open>byte\<close> is an 8-bit word; Go strings that carry received data are byte
  lists; the strings that \<open>Open\<close> switches on are Isabelle strings.
\<close>

type_synonym byte = "8 word"

definition EOL_DEFAULT :: byte where
  "EOL_DEFAULT = 10"

definition CR :: byte where
  "CR = 13"

definition LF :: byte where
  "LF = 10"

definition DefaultSize :: byte where
  "DefaultSize = 8"

text \<open>\<open>type StopBits byte\<close> and \<open>type Parity byte\<close> with their constants.\<close>

type_synonym StopBits = byte
type_synonym Parity = byte

definition Stop1 :: StopBits where "Stop1 = 1"
definition Stop1Half :: StopBits where "Stop1Half = 15"
definition Stop2 :: StopBits where "Stop2 = 2"

definition ParityNone :: Parity where "ParityNone = 78"
definition ParityOdd :: Parity where "ParityOdd = 79"
definition ParityEven :: Parity where "ParityEven = 69"
definition ParityMark :: Parity where "ParityMark = 77"
definition ParitySpace :: Parity where "ParitySpace = 83"

record Config =
  Name :: string
  Baud :: int
  ReadTimeout :: int
  Size :: byte
  Parity :: Parity
  StopBits :: StopBits

text \<open>
  Go error values.  The messages built with \<open>fmt.Errorf\<close> and
  \<open>errors.New\<close> are constructors; \<open>EOF\<close> is \<open>io.EOF\<close>, the error of
  \<open>bytes.Buffer\<close> when it runs dry; \<open>ErrForeign\<close> carries an error
  produced by an external collaborator (the transport, the file system).
\<close>

datatype error =
    ErrAlreadyOpen string
  | ErrInvalidParity
  | ErrInvalidTimeout
  | ErrInvalidStopBits
  | ErrUnableToOpen string string
  | ErrNotOpen
  | ErrTimeout
  | EOF
  | ErrForeign string

text \<open>Run-time panics of the Go runtime and of \<open>regexp.MustCompile\<close>.\<close>

datatype panic =
    NilDereference
  | SliceBoundsOutOfRange
  | CloseOfNilChannel
  | CloseOfClosedChannel
  | SendOnClosedChannel
  | MustCompilePanic string

text \<open>
  What a call does: it returns its value together with Go's \<open>error\<close> result
  (\<open>None\<close> is \<open>nil\<close>), or it panics.
\<close>

datatype 'a outcome = Return 'a "error option" | Panic panic

text \<open>A channel variable: \<open>nil\<close>, made and open, or closed.\<close>

datatype chan = ChanNil | ChanOpen | ChanClosed

text \<open>The two goroutines that \<open>Open\<close> starts.\<close>

datatype task = readSerialPort | processSerialPort

text \<open>
  \<open>struct SerialPort\<close>.  The transport \<open>port\<close> is an
  \<open>io.ReadWriteCloser\<close> supplied from outside, so its state is a type
  parameter and \<open>None\<close> is the nil interface.  \<open>buff\<close> is the unread
  portion of the \<open>bytes.Buffer\<close>.  \<open>tasks\<close> lists the goroutines that
  were started by \<open>go\<close> statements and are still running, in the order
  they were started.  The logger and the
  two unused channels \<open>closeReqChann\<close>, \<open>closeAckChann\<close> are left out:
  no operation below reads them.
\<close>

record 'p SerialPort =
  port :: "'p option"
  name :: string
  baud :: int
  eol :: byte
  rxChar :: chan
  buff :: "byte list"
  portIsOpen :: bool
  Verbose :: bool
  tasks :: "task list"

section \<open>The standard library's bytes.Buffer\<close>

text \<open>
  \<open>bytes.IndexByte\<close>: the index of the first occurrence of \<open>c\<close>, or
  \<open>None\<close> for Go's \<open>-1\<close>.
\<close>

fun IndexByte :: "byte list \<Rightarrow> byte \<Rightarrow> nat option" where
  "IndexByte [] c = None"
| "IndexByte (x # xs) c = (if x = c then Some 0 else map_option Suc (IndexByte xs c))"

text \<open>
  \<open>Buffer.ReadByte\<close>: the next byte, or \<open>io.EOF\<close> when no byte is unread.
  The third component is the unread portion afterwards.
\<close>

fun Buffer_ReadByte :: "byte list \<Rightarrow> byte \<times> error option \<times> byte list" where
  "Buffer_ReadByte [] = (0, Some EOF, [])"
| "Buffer_ReadByte (x # xs) = (x, None, xs)"

text \<open>
  \<open>Buffer.ReadString\<close> (through \<open>readSlice\<close>): the data up to and
  including the first delimiter; when there is no delimiter, all unread data
  together with \<open>io.EOF\<close>.  Either way the returned data is consumed.
\<close>

definition Buffer_ReadString :: "byte list \<Rightarrow> byte \<Rightarrow> byte list \<times> error option \<times> byte list" where
  "Buffer_ReadString b delim =
     (case IndexByte b delim of
        None \<Rightarrow> (b, Some EOF, [])
      | Some i \<Rightarrow> (take (i + 1) b, None, drop (i + 1) b))"

definition Buffer_Reset :: "byte list \<Rightarrow> byte list" where
  "Buffer_Reset b = []"

definition Buffer_Len :: "byte list \<Rightarrow> int" where
  "Buffer_Len b = int (length b)"

section \<open>Construction\<close>

text \<open>
  \<open>New\<close>.  Its argument says whether the log file could be opened: if not,
  \<open>log.Fatalln\<close> ends the process and no session exists (\<open>None\<close>).
  The buffer is \<open>bytes.NewBuffer(make([]uint8, 256))\<close>: its initial contents
  are 256 zero bytes.
\<close>

definition New :: "bool \<Rightarrow> 'p SerialPort option" where
  "New logFileOpened =
     (if logFileOpened then
        Some \<lparr> port = None, name = [], baud = 0, eol = EOL_DEFAULT, rxChar = ChanNil,
               buff = replicate 256 0, portIsOpen = False, Verbose = True, tasks = [] \<rparr>
      else None)"

section \<open>Reading\<close>

definition Read :: "'p SerialPort \<Rightarrow> byte outcome \<times> 'p SerialPort" where
  "Read sp =
     (if portIsOpen sp then
        (case Buffer_ReadByte (buff sp) of
           (b, err, rest) \<Rightarrow> (Return b err, sp\<lparr>buff := rest\<rparr>))
      else (Return 0 (Some ErrNotOpen), sp))"

text \<open>
  \<open>removeEOL\<close>: the loop appends to \<open>data\<close> every byte that is neither
  \<open>'\r'\<close> nor \<open>'\n'\<close>.
\<close>

definition removeEOL :: "byte list \<Rightarrow> byte list" where
  "removeEOL line =
     foldl (\<lambda>data b. if b = CR then data else if b = LF then data else data @ [b]) [] line"

definition ReadLine :: "'p SerialPort \<Rightarrow> byte list outcome \<times> 'p SerialPort" where
  "ReadLine sp =
     (if portIsOpen sp then
        (case Buffer_ReadString (buff sp) (eol sp) of
           (line, Some err, rest) \<Rightarrow> (Return [] (Some err), sp\<lparr>buff := rest\<rparr>)
         | (line, None, rest) \<Rightarrow> (Return (removeEOL line) None, sp\<lparr>buff := rest\<rparr>))
      else (Return [] (Some ErrNotOpen), sp))"

definition Available :: "'p SerialPort \<Rightarrow> int" where
  "Available sp = Buffer_Len (buff sp)"

definition EOL :: "'p SerialPort \<Rightarrow> byte \<Rightarrow> 'p SerialPort" where
  "EOL sp c = sp\<lparr>eol := c\<rparr>"

section \<open>Writing\<close>

text \<open>
  The transport's \<open>Write\<close> is a parameter \<open>pw\<close>: from the transport's
  state and the data it gives the byte count, the error and the new state.
  Calling a method of the nil interface \<open>sp.port\<close> is a nil dereference.
\<close>

definition Write ::
  "('p \<Rightarrow> byte list \<Rightarrow> (int \<times> error option) \<times> 'p) \<Rightarrow> 'p SerialPort \<Rightarrow> byte list
    \<Rightarrow> int outcome \<times> 'p SerialPort" where
  "Write pw sp data =
     (if portIsOpen sp then
        (case port sp of
           None \<Rightarrow> (Panic NilDereference, sp)
         | Some p \<Rightarrow> (case pw p data of ((n, err), p') \<Rightarrow> (Return n err, sp\<lparr>port := Some p'\<rparr>)))
      else (Return 0 (Some ErrNotOpen), sp))"

definition Print ::
  "('p \<Rightarrow> byte list \<Rightarrow> (int \<times> error option) \<times> 'p) \<Rightarrow> 'p SerialPort \<Rightarrow> byte list
    \<Rightarrow> unit outcome \<times> 'p SerialPort" where
  "Print pw sp str =
     (if portIsOpen sp then
        (case port sp of
           None \<Rightarrow> (Panic NilDereference, sp)
         | Some p \<Rightarrow> (case pw p str of ((n, err), p') \<Rightarrow> (Return () err, sp\<lparr>port := Some p'\<rparr>)))
      else (Return () (Some ErrNotOpen), sp))"

definition Println ::
  "('p \<Rightarrow> byte list \<Rightarrow> (int \<times> error option) \<times> 'p) \<Rightarrow> 'p SerialPort \<Rightarrow> byte list
    \<Rightarrow> unit outcome \<times> 'p SerialPort" where
  "Println pw sp str = Print pw sp (str @ [CR, LF])"

section \<open>SendFile\<close>

text \<open>
  Go's slice expressions with their bounds checks.  \<open>s[lo:]\<close> needs
  \<open>lo \<le> len(s)\<close>.  \<open>s[lo:hi]\<close> needs \<open>lo \<le> hi \<le> cap(s)\<close>; the model
  checks \<open>hi\<close> against the length, which is never more than the capacity,
  so a slice that is in range here is in range in Go.  \<open>None\<close> is the panic.
\<close>

definition slice_from :: "byte list \<Rightarrow> nat \<Rightarrow> byte list option" where
  "slice_from s lo = (if lo \<le> length s then Some (drop lo s) else None)"

definition slice :: "byte list \<Rightarrow> nat \<Rightarrow> nat \<Rightarrow> byte list option" where
  "slice s lo hi = (if lo \<le> hi \<and> hi \<le> length s then Some (take (hi - lo) (drop lo s)) else None)"

definition q :: nat where
  "q = 512"

text \<open>
  The \<open>for sentBytes <= fileSize\<close> loop.  \<open>ws\<close> collects the chunks handed
  to the transport's \<open>Write\<close>, oldest first, the failing one included.  The
  counter is a \<open>nat\<close>: a file held in memory is far shorter than the largest
  Go \<open>int\<close>, so \<open>sentBytes + q\<close> does not wrap.  The pacing
  \<open>time.Sleep\<close> has no effect on the data and is left out.
\<close>

function sendLoop ::
  "('p \<Rightarrow> byte list \<Rightarrow> (int \<times> error option) \<times> 'p) \<Rightarrow> 'p SerialPort \<Rightarrow> byte list \<Rightarrow> nat
    \<Rightarrow> byte list list \<Rightarrow> unit outcome \<times> 'p SerialPort \<times> byte list list" where
  "sendLoop pw sp file sentBytes ws =
     (if sentBytes \<le> length file then
        (case slice_from file sentBytes of
           None \<Rightarrow> (Panic SliceBoundsOutOfRange, sp, ws)
         | Some rest \<Rightarrow>
             (case (if length rest > q then slice file sentBytes (sentBytes + q)
                    else slice_from file sentBytes) of
                None \<Rightarrow> (Panic SliceBoundsOutOfRange, sp, ws)
              | Some data \<Rightarrow>
                  (case port sp of
                     None \<Rightarrow> (Panic NilDereference, sp, ws)
                   | Some p \<Rightarrow>
                       (case pw p data of
                          ((n, Some err), p') \<Rightarrow>
                            (Return () (Some err), sp\<lparr>port := Some p'\<rparr>, ws @ [data])
                        | ((n, None), p') \<Rightarrow>
                            sendLoop pw (sp\<lparr>port := Some p'\<rparr>) file (sentBytes + q)
                              (ws @ [data])))))
      else (Return () None, sp, ws))"
  by pat_completeness auto
termination
  by (relation "measure (\<lambda>(pw, sp, file, sentBytes, ws). Suc (length file) - sentBytes)")
     (auto simp: q_def)

declare sendLoop.simps [simp del]

text \<open>
  \<open>SendFile\<close>.  \<open>ioutil.ReadFile\<close> is the parameter \<open>readFile\<close>: the
  file's bytes, or the error of the file system.
\<close>

definition SendFile ::
  "(string \<Rightarrow> error + byte list) \<Rightarrow> ('p \<Rightarrow> byte list \<Rightarrow> (int \<times> error option) \<times> 'p)
    \<Rightarrow> 'p SerialPort \<Rightarrow> string \<Rightarrow> unit outcome \<times> 'p SerialPort \<times> byte list list" where
  "SendFile readFile pw sp filepath =
     (case readFile filepath of
        Inl err \<Rightarrow> (Return () (Some err), sp, [])
      | Inr file \<Rightarrow> sendLoop pw sp file 0 [])"

section \<open>WaitForRegexTimeout\<close>

text \<open>
  The regular-expression engine is Go's \<open>regexp\<close>: \<open>compile\<close> is
  \<open>regexp.Compile\<close> (\<open>None\<close> when the pattern does not parse) and
  \<open>findAll re line\<close> is \<open>re.FindAllString(line, -1)\<close>.
  \<open>regexp.MustCompile\<close> panics where \<open>Compile\<close> fails.

  The polling goroutine races the timer.  The model lets the deadline be the
  number of polling rounds that run before the timer fires, and gives each
  round the bytes that the reader goroutine appended to the buffer during
  that round's 50 ms sleep: the list \<open>rxs\<close> has one batch per round.
\<close>

fun pollLoop ::
  "('re \<Rightarrow> byte list \<Rightarrow> byte list list) \<Rightarrow> 're \<Rightarrow> 'p SerialPort \<Rightarrow> byte list list
    \<Rightarrow> byte list outcome \<times> 'p SerialPort" where
  "pollLoop findAll re sp [] = (Return [] (Some ErrTimeout), sp)"
| "pollLoop findAll re sp (rx # rxs) =
     (case ReadLine (sp\<lparr>buff := buff sp @ rx\<rparr>) of
        (Return line (Some err), sp') \<Rightarrow> pollLoop findAll re sp' rxs
      | (Return line None, sp') \<Rightarrow>
          (case findAll re line of
             [] \<Rightarrow> pollLoop findAll re sp' rxs
           | m # ms \<Rightarrow> (Return m None, sp'))
      | (Panic pn, sp') \<Rightarrow> (Panic pn, sp'))"

definition WaitForRegexTimeout ::
  "(string \<Rightarrow> 're option) \<Rightarrow> ('re \<Rightarrow> byte list \<Rightarrow> byte list list) \<Rightarrow> 'p SerialPort \<Rightarrow> string
    \<Rightarrow> byte list list \<Rightarrow> byte list outcome \<times> 'p SerialPort" where
  "WaitForRegexTimeout compile findAll sp exp rxs =
     (if portIsOpen sp then
        (case compile exp of
           None \<Rightarrow> (Panic (MustCompilePanic exp), sp)
         | Some re \<Rightarrow> pollLoop findAll re sp rxs)
      else (Return [] (Some ErrNotOpen), sp))"

section \<open>Open and Close\<close>

text \<open>The three \<open>switch\<close> statements of \<open>Open\<close>; \<open>None\<close> is the \<open>default\<close> branch that returns an error.\<close>

definition parity_of :: "string \<Rightarrow> Parity option" where
  "parity_of parity =
     (if parity = ''N'' then Some ParityNone
      else if parity = ''O'' then Some ParityOdd
      else if parity = ''E'' then Some ParityEven
      else if parity = ''M'' then Some ParityMark
      else if parity = ''S'' then Some ParitySpace
      else None)"

definition stopbits_of :: "string \<Rightarrow> StopBits option" where
  "stopbits_of stopbit =
     (if stopbit = ''1'' then Some Stop1
      else if stopbit = ''1.5'' then Some Stop1Half
      else if stopbit = ''2'' then Some Stop2
      else None)"

definition databit_of :: "string \<Rightarrow> byte" where
  "databit_of databits =
     (if databits = ''5'' then 5
      else if databits = ''6'' then 6
      else if databits = ''7'' then 7
      else if databits = ''8'' then DefaultSize
      else DefaultSize)"

text \<open>\<open>var serialCfg Config\<close>: every field has its zero value.\<close>

definition zeroConfig :: Config where
  "zeroConfig = \<lparr> Name = [], Baud = 0, ReadTimeout = 0, Size = 0, Parity = 0, StopBits = 0 \<rparr>"

text \<open>
  The assignments after a successful \<open>openPort\<close>, up to and including
  \<open>make(chan byte)\<close>.
\<close>

definition Open_commit :: "'p SerialPort \<Rightarrow> string \<Rightarrow> int \<Rightarrow> 'p \<Rightarrow> 'p SerialPort" where
  "Open_commit sp nm bd comPort =
     sp\<lparr> name := nm, baud := bd, port := Some comPort, portIsOpen := True,
         buff := Buffer_Reset (buff sp), rxChar := ChanOpen \<rparr>"

text \<open>
  One pass of the loop of \<open>readSerialPort\<close>.  \<open>pread n p\<close> is the
  transport's \<open>Read\<close> into a slice of \<open>n\<close> bytes: the bytes it
  delivered (the code drops its error) and the transport afterwards.  While
  the session is open, the pass reads into the 256-byte \<open>rxBuff\<close>,
  appends the bytes \<open>rxBuff[:n]\<close> to the buffer (a panic if the
  transport claims more than 256) and sends each of them on \<open>rxChar\<close>,
  where \<open>processSerialPort\<close> takes it.  A send on a closed channel
  panics; a send on a nil channel blocks for ever, so that the goroutine
  runs no more.  When the session is not open, the loop ends and the
  goroutine returns.  The second component is the bytes read.

  The pass is one step: nothing else runs between its read and its last
  send.  Waiting for the receiver of a send only delays the pass, so this
  allows every interleaving the program has.
\<close>

definition readSerialPort_pass ::
  "(nat \<Rightarrow> 'p \<Rightarrow> byte list \<times> 'p) \<Rightarrow> 'p SerialPort \<Rightarrow> (panic + 'p SerialPort) \<times> byte list" where
  "readSerialPort_pass pread sp =
     (if portIsOpen sp then
        (case port sp of
           None \<Rightarrow> (Inl NilDereference, [])
         | Some p \<Rightarrow>
             (case pread 256 p of
                (data, p') \<Rightarrow>
                  if 256 < length data then (Inl SliceBoundsOutOfRange, [])
                  else
                    let sp1 = sp\<lparr>port := Some p', buff := buff sp @ data\<rparr> in
                    if data = [] then (Inr sp1, data)
                    else
                      (case rxChar sp1 of
                         ChanOpen \<Rightarrow> (Inr sp1, data)
                       | ChanClosed \<Rightarrow> (Inl SendOnClosedChannel, data)
                       | ChanNil \<Rightarrow>
                           (Inr (sp1\<lparr>tasks := removeAll readSerialPort (tasks sp1)\<rparr>), data))))
      else (Inr (sp\<lparr>tasks := removeAll readSerialPort (tasks sp)\<rparr>), []))"

text \<open>
  One pass of the loop of \<open>processSerialPort\<close>.  While the session is
  open it waits for a byte from \<open>rxChar\<close> and adds it to the line that it
  prints to the log at each delimiter: nothing of the session changes.  When
  the session is not open, the loop ends and the goroutine returns.
\<close>

definition processSerialPort_pass :: "'p SerialPort \<Rightarrow> 'p SerialPort" where
  "processSerialPort_pass sp =
     (if portIsOpen sp then sp
      else sp\<lparr>tasks := removeAll processSerialPort (tasks sp)\<rparr>)"

text \<open>
  The goroutines run beside the caller.  A schedule is the list of the
  goroutines that the scheduler lets run, one pass each, before the
  caller's next statement; an entry for a goroutine that is not running
  does nothing.  A panic in a goroutine ends the program.  The second
  component is the bytes read from the transport, in order.
\<close>

fun background ::
  "(nat \<Rightarrow> 'p \<Rightarrow> byte list \<times> 'p) \<Rightarrow> task list \<Rightarrow> 'p SerialPort
    \<Rightarrow> (panic + 'p SerialPort) \<times> byte list" where
  "background pread [] sp = (Inr sp, [])"
| "background pread (t # ts) sp =
     (if t \<in> set (tasks sp) then
        (case t of
           readSerialPort \<Rightarrow>
             (case readSerialPort_pass pread sp of
                (Inl pn, rx) \<Rightarrow> (Inl pn, rx)
              | (Inr sp1, rx) \<Rightarrow>
                  (case background pread ts sp1 of (r, rx') \<Rightarrow> (r, rx @ rx')))
         | processSerialPort \<Rightarrow> background pread ts (processSerialPort_pass sp))
      else background pread ts sp)"

text \<open>
  The statement \<open>go t\<close>: the goroutine \<open>t\<close> is running from now on, and
  the schedule \<open>sched\<close> runs before the caller's next statement.
\<close>

definition go ::
  "(nat \<Rightarrow> 'p \<Rightarrow> byte list \<times> 'p) \<Rightarrow> task \<Rightarrow> task list \<Rightarrow> 'p SerialPort
    \<Rightarrow> (panic + 'p SerialPort) \<times> byte list" where
  "go pread t sched sp = background pread sched (sp\<lparr>tasks := tasks sp @ [t]\<rparr>)"

text \<open>
  \<open>Open\<close>.  \<open>parseDuration\<close> is \<open>time.ParseDuration\<close> (nanoseconds, or
  \<open>None\<close> for its error).  \<open>openPort\<close> is the platform's function that
  opens the device: the transport, or the text of its error.  \<open>sched1\<close>
  is what the goroutines do between the first \<open>go\<close> statement and the
  second, \<open>sched2\<close> what they do between the second and the return.
\<close>

definition Open ::
  "(string \<Rightarrow> int option)
    \<Rightarrow> (string \<Rightarrow> int \<Rightarrow> byte \<Rightarrow> Parity \<Rightarrow> StopBits \<Rightarrow> int \<Rightarrow> string + 'p)
    \<Rightarrow> (nat \<Rightarrow> 'p \<Rightarrow> byte list \<times> 'p) \<Rightarrow> task list \<Rightarrow> task list
    \<Rightarrow> 'p SerialPort \<Rightarrow> string \<Rightarrow> int \<Rightarrow> string \<Rightarrow> string \<Rightarrow> string \<Rightarrow> string
    \<Rightarrow> unit outcome \<times> 'p SerialPort" where
  "Open parseDuration openPort pread sched1 sched2 sp nm bd databits timeout parity stopbit =
     (if portIsOpen sp then (Return () (Some (ErrAlreadyOpen nm)), sp)
      else
        let cfg1 = (if length nm \<noteq> 0 then zeroConfig\<lparr>Name := nm\<rparr> else zeroConfig);
            cfg2 = (if bd \<noteq> 0 then cfg1\<lparr>Baud := bd\<rparr> else cfg1)
        in
        (case (if length parity \<noteq> 0 then map_option (\<lambda>v. cfg2\<lparr>Parity := v\<rparr>) (parity_of parity)
               else Some cfg2) of
           None \<Rightarrow> (Return () (Some ErrInvalidParity), sp)
         | Some cfg3 \<Rightarrow>
        (case (if length timeout \<noteq> 0
               then map_option (\<lambda>v. cfg3\<lparr>ReadTimeout := v\<rparr>) (parseDuration timeout)
               else Some cfg3) of
           None \<Rightarrow> (Return () (Some ErrInvalidTimeout), sp)
         | Some cfg4 \<Rightarrow>
        (case (if length stopbit \<noteq> 0
               then map_option (\<lambda>v. cfg4\<lparr>StopBits := v\<rparr>) (stopbits_of stopbit)
               else Some cfg4) of
           None \<Rightarrow> (Return () (Some ErrInvalidStopBits), sp)
         | Some cfg5 \<Rightarrow>
        (case openPort (Name cfg5) (Baud cfg5) (databit_of databits) (Parity cfg5)
                (StopBits cfg5) (ReadTimeout cfg5) of
           Inl err \<Rightarrow> (Return () (Some (ErrUnableToOpen nm err)), sp)
         | Inr comPort \<Rightarrow>
             (case go pread readSerialPort sched1 (Open_commit sp nm bd comPort) of
                (Inl pn, rx1) \<Rightarrow> (Panic pn, Open_commit sp nm bd comPort)
              | (Inr sp1, rx1) \<Rightarrow>
                  (case go pread processSerialPort sched2 sp1 of
                     (Inl pn, rx2) \<Rightarrow> (Panic pn, sp1)
                   | (Inr sp2, rx2) \<Rightarrow> (Return () None, sp2))))))))"

text \<open>
  \<open>Close\<close>.  \<open>pclose\<close> is the transport's \<open>Close\<close>.  Go's
  \<open>close\<close> panics on a nil channel and on a closed one.
\<close>

definition Close ::
  "('p \<Rightarrow> error option \<times> 'p) \<Rightarrow> 'p SerialPort \<Rightarrow> unit outcome \<times> 'p SerialPort" where
  "Close pclose sp =
     (if portIsOpen sp then
        let sp1 = sp\<lparr>portIsOpen := False\<rparr> in
        (case rxChar sp1 of
           ChanNil \<Rightarrow> (Panic CloseOfNilChannel, sp1)
         | ChanClosed \<Rightarrow> (Panic CloseOfClosedChannel, sp1)
         | ChanOpen \<Rightarrow>
             let sp2 = sp1\<lparr>rxChar := ChanClosed\<rparr> in
             (case port sp2 of
                None \<Rightarrow> (Panic NilDereference, sp2)
              | Some p \<Rightarrow> (case pclose p of (err, p') \<Rightarrow> (Return () err, sp2\<lparr>port := Some p'\<rparr>))))
      else (Return () None, sp))"

section \<open>Callers and collaborators used in the statements\<close>

text \<open>\<open>k\<close> successive calls of \<open>ReadLine\<close>: the results in call order and the session afterwards.\<close>

fun readLines :: "nat \<Rightarrow> 'p SerialPort \<Rightarrow> byte list outcome list \<times> 'p SerialPort" where
  "readLines 0 sp = ([], sp)"
| "readLines (Suc k) sp =
     (case ReadLine sp of (r, sp1) \<Rightarrow> (case readLines k sp1 of (rs, sp2) \<Rightarrow> (r # rs, sp2)))"

text \<open>
  A received byte sequence read as lines: \<open>frame d ls rest\<close> is the
  fragments \<open>ls\<close>, each followed by the delimiter \<open>d\<close>, and then the
  bytes \<open>rest\<close> after the last delimiter.  \<open>split_lines\<close> goes the other
  way: the fragments before each delimiter, in arrival order, and the rest.
\<close>

definition frame :: "byte \<Rightarrow> byte list list \<Rightarrow> byte list \<Rightarrow> byte list" where
  "frame d ls rest = concat (map (\<lambda>l. l @ [d]) ls) @ rest"

fun split_lines :: "byte \<Rightarrow> byte list \<Rightarrow> byte list list \<times> byte list" where
  "split_lines d [] = ([], [])"
| "split_lines d (x # xs) =
     (case split_lines d xs of
        (ls, rest) \<Rightarrow>
          if x = d then ([] # ls, rest)
          else (case ls of [] \<Rightarrow> ([], x # rest) | l # ls' \<Rightarrow> ((x # l) # ls', rest)))"

text \<open>A fragment with every carriage return and every line feed taken out.\<close>

definition stripCRLF :: "byte list \<Rightarrow> byte list" where
  "stripCRLF l = filter (\<lambda>b. b \<noteq> CR \<and> b \<noteq> LF) l"

text \<open>
  The specification's reading of a returned line, on the fragment before the
  delimiter: the delimiter is gone already, and a carriage return directly
  before it is removed; the other bytes stay.
\<close>

definition spec_line :: "byte list \<Rightarrow> byte list" where
  "spec_line l = (if l \<noteq> [] \<and> last l = CR then butlast l else l)"

text \<open>A transport whose \<open>Write\<close> accepts all the data; its state counts the bytes taken.\<close>

definition acceptWrite :: "nat \<Rightarrow> byte list \<Rightarrow> (int \<times> error option) \<times> nat" where
  "acceptWrite p data = ((int (length data), None), p + length data)"

text \<open>
  A transport whose state counts the calls of \<open>Read\<close>: the first call
  delivers \<open>"OK"\<close>, the later ones nothing.  And one that never delivers.
\<close>

definition readOK :: "nat \<Rightarrow> nat \<Rightarrow> byte list \<times> nat" where
  "readOK n p = (if p = 0 then [79, 75] else [], Suc p)"


text \<open>A transport whose \<open>Write\<close> fails every time.\<close>

definition rejectWrite :: "nat \<Rightarrow> byte list \<Rightarrow> (int \<times> error option) \<times> nat" where
  "rejectWrite p data = ((0, Some (ErrForeign ''write failed'')), p)"

text \<open>
  The session as \<open>Open\<close> leaves a fresh \<open>New\<close> one (port COM1, 9600 baud,
  default delimiter), once the reader has put the bytes \<open>xs\<close> into the buffer.
\<close>

definition session_with :: "byte list \<Rightarrow> nat SerialPort" where
  "session_with xs =
     \<lparr> port = Some 0, name = ''COM1'', baud = 9600, eol = EOL_DEFAULT, rxChar = ChanOpen,
       buff = xs, portIsOpen = True, Verbose = True,
       tasks = [readSerialPort, processSerialPort] \<rparr>"

section \<open>The session's life cycle\<close>


text \<open>
  Claim C6.  \<open>Open\<close> on a session that is already open returns the
  "already open" error and leaves every field of the session as it was.
\<close>

theorem Open_already_open:
  "portIsOpen sp \<Longrightarrow>
   Open parseDuration openPort pread sched1 sched2 sp nm bd databits timeout parity stopbit
     = (Return () (Some (ErrAlreadyOpen nm)), sp)"
  by (simp add: Open_def)

theorem Open_already_open_witness:
  "portIsOpen (session_with [65, 84]) \<and>
   Open (\<lambda>_. None) (\<lambda>_ _ _ _ _ _. Inr 1) readOK [readSerialPort] [] (session_with [65, 84])
       ''COM1'' 9600 ''8'' [] ''N'' ''1''
     = (Return () (Some (ErrAlreadyOpen ''COM1'')), session_with [65, 84])"
  using Open_already_open [of "session_with [65, 84]" "\<lambda>_. None" "\<lambda>_ _ _ _ _ _. Inr 1"
      readOK "[readSerialPort]" "[]" "''COM1''" 9600 "''8''" "[]" "''N''" "''1''"]
  by (simp add: session_with_def)

text \<open>
  Claim C7.  \<open>Close\<close> on a closed session returns nil and changes nothing;
  and whatever the first \<open>Close\<close> did, a second one right after it is such
  a call: \<open>Close\<close> is idempotent.
\<close>

theorem Close_closed_noop:
  "(\<not> portIsOpen sp \<longrightarrow> Close pclose sp = (Return () None, sp)) \<and>
   Close pclose (snd (Close pclose sp)) = (Return () None, snd (Close pclose sp))"
  by (auto simp: Close_def Let_def split: chan.splits option.splits prod.splits)

theorem Close_closed_noop_witness:
  "\<not> portIsOpen (the (New True) :: nat SerialPort) \<and>
   Close (\<lambda>p. (None, p)) (the (New True) :: nat SerialPort) = (Return () None, the (New True)) \<and>
   Close (\<lambda>p. (None, p)) (snd (Close (\<lambda>p. (None, p)) (session_with [65])))
     = (Return () None, snd (Close (\<lambda>p. (None, p)) (session_with [65])))"
  using Close_closed_noop [of "the (New True) :: nat SerialPort" "\<lambda>p. (None, p)"]
    Close_closed_noop [of "session_with [65]" "\<lambda>p. (None, p)"]
  by (simp add: New_def)




text \<open>
  The order of the reset and the \<open>go\<close> statement shows in the buffer.
  On a transport that delivers \<open>"OK"\<close> to the first \<open>Read\<close>, with the
  reader scheduled once: the reset before the \<open>go\<close> statement leaves
  \<open>"OK"\<close> in the buffer, a reset after it would leave nothing.
\<close>

lemma Reset_before_go:
  "map_sum id buff (fst (go readOK readSerialPort [readSerialPort]
       ((session_with [1, 2, 3])\<lparr>buff := Buffer_Reset [1, 2, 3], tasks := []\<rparr>)))
     = Inr [79, 75] \<and>
   map_sum id (\<lambda>s. Buffer_Reset (buff s)) (fst (go readOK readSerialPort [readSerialPort]
       ((session_with [1, 2, 3])\<lparr>tasks := []\<rparr>)))
     = Inr []"
  by (simp add: go_def readSerialPort_pass_def readOK_def session_with_def Buffer_Reset_def)




text \<open>
  Claim C9.  \<open>Available\<close> is the length of the unread buffer whatever the
  open flag says, and it has no error result.  On the session that \<open>New\<close>
  returns it is 256.
\<close>

theorem Available_New:
  "map_option Available (New True :: 'p SerialPort option) = Some 256 \<and>
   Available (sp\<lparr>portIsOpen := b\<rparr>) = int (length (buff sp))"
  by (simp add: New_def Available_def Buffer_Len_def)

section \<open>Operations on a closed session\<close>

text \<open>
  \<open>Read\<close>, \<open>ReadLine\<close>, \<open>Write\<close>, \<open>Print\<close>, \<open>Println\<close> and
  \<open>WaitForRegexTimeout\<close> test \<open>portIsOpen\<close> and return the "not open"
  error on a closed session, which they leave as it is.
\<close>

lemma closed_NotOpen:
  assumes "\<not> portIsOpen sp"
  shows "Read sp = (Return 0 (Some ErrNotOpen), sp)"
    and "ReadLine sp = (Return [] (Some ErrNotOpen), sp)"
    and "Write pw sp data = (Return 0 (Some ErrNotOpen), sp)"
    and "Print pw sp data = (Return () (Some ErrNotOpen), sp)"
    and "Println pw sp data = (Return () (Some ErrNotOpen), sp)"
    and "WaitForRegexTimeout compile findAll sp exp rxs = (Return [] (Some ErrNotOpen), sp)"
  using assms
  by (simp_all add: Read_def ReadLine_def Write_def Print_def Println_def
        WaitForRegexTimeout_def)

text \<open>
  Claim C1.  \<open>SendFile\<close> is the exception: it never tests \<open>portIsOpen\<close>.
  On the session that \<open>New\<close> returns, which was never opened, a readable
  three-byte file makes it call \<open>Write\<close> on the nil transport: a nil
  dereference.  On a session that was opened and then closed it hands the
  file to the transport left in the session and returns what the transport
  returns; here the transport accepts the data and the result is nil.
\<close>

theorem SendFile_closed_session:
  "SendFile (\<lambda>_. Inr [1, 2, 3]) pw (the (New True)) path
     = (Panic NilDereference, the (New True), []) \<and>
   \<not> portIsOpen (snd (Close (\<lambda>p. (None, p)) (session_with []))) \<and>
   SendFile (\<lambda>_. Inr [1, 2, 3]) acceptWrite (snd (Close (\<lambda>p. (None, p)) (session_with []))) path
     = (Return () None, (snd (Close (\<lambda>p. (None, p)) (session_with [])))\<lparr>port := Some 3\<rparr>,
        [[1, 2, 3]])"
  by (simp add: SendFile_def New_def sendLoop.simps slice_from_def slice_def q_def Close_def
        session_with_def acceptWrite_def)

section \<open>Waiting for a pattern\<close>

text \<open>
  Claim C2.  On an open session, a pattern that \<open>regexp.Compile\<close> rejects
  makes \<open>WaitForRegexTimeout\<close> panic in \<open>regexp.MustCompile\<close>, before any
  polling: no error value is returned.
\<close>

theorem WaitForRegexTimeout_invalid_pattern:
  "portIsOpen sp \<Longrightarrow> compile exp = None \<Longrightarrow>
   WaitForRegexTimeout compile findAll sp exp rxs = (Panic (MustCompilePanic exp), sp)"
  by (simp add: WaitForRegexTimeout_def)

theorem WaitForRegexTimeout_invalid_pattern_witness:
  "portIsOpen (session_with []) \<and>
   (\<lambda>e. if e = ''('' then None else Some e) ''('' = None \<and>
   WaitForRegexTimeout (\<lambda>e. if e = ''('' then None else Some e) (\<lambda>re line. []) (session_with [])
       ''('' [[]]
     = (Panic (MustCompilePanic ''(''), session_with [])"
  using WaitForRegexTimeout_invalid_pattern [of "session_with []"
      "\<lambda>e. if e = ''('' then None else Some e" "''(''" "\<lambda>re line. []" "[[]]"]
  by (simp add: session_with_def)

section \<open>Reading lines\<close>

lemma IndexByte_first: "d \<notin> set pre \<Longrightarrow> IndexByte (pre @ d # rest) d = Some (length pre)"
  by (induction pre) auto

lemma IndexByte_none: "d \<notin> set xs \<Longrightarrow> IndexByte xs d = None"
  by (induction xs) auto

lemma removeEOL_foldl:
  "foldl (\<lambda>data b. if b = CR then data else if b = LF then data else data @ [b]) acc line
     = acc @ stripCRLF line"
  by (induction line arbitrary: acc) (auto simp: stripCRLF_def)

lemma removeEOL_stripCRLF: "removeEOL line = stripCRLF line"
  by (simp add: removeEOL_def removeEOL_foldl)

text \<open>
  One call with a complete line in the buffer: the line and its delimiter
  are consumed, and the text returned is \<open>removeEOL\<close> of the line with its
  delimiter.
\<close>

lemma ReadLine_line:
  assumes "portIsOpen sp" and "buff sp = pre @ eol sp # rest" and "eol sp \<notin> set pre"
  shows "ReadLine sp = (Return (removeEOL (pre @ [eol sp])) None, sp\<lparr>buff := rest\<rparr>)"
  using assms by (simp add: ReadLine_def Buffer_ReadString_def IndexByte_first)

text \<open>
  One call with no delimiter in the buffer: \<open>io.EOF\<close>, and the buffer is
  drained.
\<close>

lemma ReadLine_incomplete:
  assumes "portIsOpen sp" and "eol sp \<notin> set (buff sp)"
  shows "ReadLine sp = (Return [] (Some EOF), sp\<lparr>buff := []\<rparr>)"
  using assms by (simp add: ReadLine_def Buffer_ReadString_def IndexByte_none)

text \<open>
  Claim C3.  With the delimiter set to \<open>';'\<close> (59) by \<open>EOL\<close> and the
  bytes \<open>"AT;"\<close> in the buffer, \<open>ReadLine\<close> consumes the three bytes and
  returns all three: the delimiter is still in the returned text, because
  \<open>removeEOL\<close> drops only \<open>'\r'\<close> and \<open>'\n'\<close>.
\<close>

theorem ReadLine_custom_delimiter:
  "ReadLine (EOL (session_with [65, 84, 59]) 59)
     = (Return [65, 84, 59] None, EOL (session_with []) 59)"
  by (simp add: ReadLine_def EOL_def session_with_def Buffer_ReadString_def removeEOL_def
        CR_def LF_def)

lemma frame_Nil: "frame d [] rest = rest"
  by (simp add: frame_def)

lemma frame_Cons: "frame d (l # ls) rest = l @ d # frame d ls rest"
  by (simp add: frame_def)

text \<open>\<open>split_lines\<close> takes a byte sequence apart into delimiter-free pieces that frame it.\<close>

lemma split_lines_frame:
  "split_lines d xs = (ls, rest) \<Longrightarrow>
     xs = frame d ls rest \<and> (\<forall>l\<in>set ls. d \<notin> set l) \<and> d \<notin> set rest"
proof (induction xs arbitrary: ls rest)
  case Nil
  then show ?case by (simp add: frame_Nil)
next
  case (Cons x xs)
  obtain ls0 rest0 where s0: "split_lines d xs = (ls0, rest0)"
    by (cases "split_lines d xs")
  have ih: "xs = frame d ls0 rest0 \<and> (\<forall>l\<in>set ls0. d \<notin> set l) \<and> d \<notin> set rest0"
    by (rule Cons.IH [OF s0])
  show ?case
  proof (cases "x = d")
    case True
    then have "ls = [] # ls0" "rest = rest0"
      using Cons.prems s0 by simp_all
    then show ?thesis
      using ih True by (simp add: frame_Cons)
  next
    case False
    show ?thesis
    proof (cases ls0)
      case Nil
      then have "ls = []" "rest = x # rest0"
        using Cons.prems s0 False by simp_all
      then show ?thesis
        using ih Nil False by (simp add: frame_Nil)
    next
      case (Cons l ls')
      then have "ls = (x # l) # ls'" "rest = rest0"
        using Cons.prems s0 False by simp_all
      then show ?thesis
        using ih Cons False by (simp add: frame_Cons)
    qed
  qed
qed

lemma count_frame:
  "\<forall>l\<in>set ls. d \<notin> set l \<Longrightarrow> d \<notin> set rest \<Longrightarrow> count_list (frame d ls rest) d = length ls"
  by (induction ls) (auto simp: frame_Nil frame_Cons count_list_0_iff)

text \<open>As many calls as there are complete lines, for any delimiter.\<close>

lemma readLines_frame:
  assumes "portIsOpen sp" and "\<forall>l\<in>set ls. eol sp \<notin> set l"
    and "buff sp = frame (eol sp) ls rest"
  shows "readLines (length ls) sp
           = (map (\<lambda>l. Return (removeEOL (l @ [eol sp])) None) ls, sp\<lparr>buff := rest\<rparr>)"
  using assms
proof (induction ls arbitrary: sp)
  case Nil
  then show ?case by (simp add: frame_Nil)
next
  case (Cons l ls)
  let ?sp1 = "sp\<lparr>buff := frame (eol sp) ls rest\<rparr>"
  have b: "buff sp = l @ eol sp # frame (eol sp) ls rest"
    using Cons.prems(3) by (simp add: frame_Cons)
  have notin: "eol sp \<notin> set l"
    using Cons.prems(2) by simp
  have step: "ReadLine sp = (Return (removeEOL (l @ [eol sp])) None, ?sp1)"
    by (rule ReadLine_line [OF Cons.prems(1) b notin])
  have ih: "readLines (length ls) ?sp1
              = (map (\<lambda>l. Return (removeEOL (l @ [eol ?sp1])) None) ls, ?sp1\<lparr>buff := rest\<rparr>)"
    by (rule Cons.IH) (use Cons.prems in simp_all)
  show ?case
    using step ih by simp
qed

lemma removeEOL_delimiter:
  "d = LF \<or> d = CR \<Longrightarrow> removeEOL (l @ [d]) = stripCRLF l"
  by (auto simp: removeEOL_stripCRLF stripCRLF_def)

text \<open>
  Claim C5, as the code has it.  Let the delimiter be the line feed (the
  default) or the carriage return, and let the buffer of an open session
  hold \<open>k\<close> delimiters, so that it splits into the \<open>k\<close> fragments
  \<open>ls\<close> and the bytes \<open>rest\<close> after the last delimiter.  Then \<open>k\<close>
  calls of \<open>ReadLine\<close> return the fragments in arrival order, each with
  all its carriage returns and line feeds removed, and leave \<open>rest\<close> in
  the buffer; the next call returns \<open>io.EOF\<close>.
\<close>

theorem readLines_k_fragments:
  assumes "portIsOpen sp" and "eol sp = LF \<or> eol sp = CR"
    and "split_lines (eol sp) (buff sp) = (ls, rest)"
  shows "count_list (buff sp) (eol sp) = length ls \<and>
         readLines (length ls) sp = (map (\<lambda>l. Return (stripCRLF l) None) ls, sp\<lparr>buff := rest\<rparr>) \<and>
         ReadLine (sp\<lparr>buff := rest\<rparr>) = (Return [] (Some EOF), sp\<lparr>buff := []\<rparr>)"
proof -
  have fr: "buff sp = frame (eol sp) ls rest" and ls: "\<forall>l\<in>set ls. eol sp \<notin> set l"
    and rest: "eol sp \<notin> set rest"
    using split_lines_frame [OF assms(3)] by simp_all
  have "count_list (buff sp) (eol sp) = length ls"
    using count_frame [OF ls rest] fr by simp
  moreover have "readLines (length ls) sp
      = (map (\<lambda>l. Return (stripCRLF l) None) ls, sp\<lparr>buff := rest\<rparr>)"
    using readLines_frame [OF assms(1) ls fr] assms(2) by (simp add: removeEOL_delimiter)
  moreover have "ReadLine (sp\<lparr>buff := rest\<rparr>) = (Return [] (Some EOF), sp\<lparr>buff := []\<rparr>)"
    using ReadLine_incomplete [of "sp\<lparr>buff := rest\<rparr>"] assms(1) rest by simp
  ultimately show ?thesis by blast
qed

theorem readLines_k_fragments_witness:
  "portIsOpen (session_with [65, 84, 13, 10, 79, 75, 13, 10, 62]) \<and>
   (eol (session_with [65, 84, 13, 10, 79, 75, 13, 10, 62]) = LF \<or>
    eol (session_with [65, 84, 13, 10, 79, 75, 13, 10, 62]) = CR) \<and>
   split_lines LF [65, 84, 13, 10, 79, 75, 13, 10, 62] = ([[65, 84, 13], [79, 75, 13]], [62]) \<and>
   count_list [65, 84, 13, 10, 79, 75, 13, 10, 62] LF = 2 \<and>
   readLines (Suc (Suc 0)) (session_with [65, 84, 13, 10, 79, 75, 13, 10, 62])
     = ([Return [65, 84] None, Return [79, 75] None], session_with [62]) \<and>
   ReadLine (session_with [62]) = (Return [] (Some EOF), session_with [])"
proof -
  let ?sp = "session_with [65, 84, 13, 10, 79, 75, 13, 10, 62]"
  have a: "portIsOpen ?sp" and b: "eol ?sp = LF \<or> eol ?sp = CR"
    by (simp_all add: session_with_def EOL_DEFAULT_def LF_def)
  have c: "split_lines (eol ?sp) (buff ?sp) = ([[65, 84, 13], [79, 75, 13]], [62])"
    by (simp add: session_with_def EOL_DEFAULT_def)
  show ?thesis
    using readLines_k_fragments [OF a b c] a b c
    by (simp add: session_with_def EOL_DEFAULT_def LF_def CR_def stripCRLF_def
          ReadLine_def Buffer_ReadString_def removeEOL_def)
qed

text \<open>
  Claim C5 as it is worded fails: bytes inside a fragment are removed too.
  With the default delimiter and \<open>"a\rb\n"\<close> in the buffer the one call
  returns \<open>"ab"\<close>, where the fragment without its delimiter and without
  a carriage return directly before it is \<open>"a\rb"\<close>.  With the carriage
  return as delimiter and \<open>"a\nb\r"\<close> in the buffer the call returns
  \<open>"ab"\<close> again, where the wording gives \<open>"a\nb"\<close>.
\<close>

theorem readLines_inner_bytes:
  "fst (readLines 1 (session_with [97, 13, 98, 10])) = [Return [97, 98] None] \<and>
   fst (readLines 1 (session_with [97, 13, 98, 10]))
     \<noteq> map (\<lambda>l. Return (spec_line l) None) (fst (split_lines LF [97, 13, 98, 10])) \<and>
   fst (readLines 1 (EOL (session_with [97, 10, 98, 13]) CR)) = [Return [97, 98] None] \<and>
   fst (readLines 1 (EOL (session_with [97, 10, 98, 13]) CR))
     \<noteq> map (\<lambda>l. Return (spec_line l) None) (fst (split_lines CR [97, 10, 98, 13]))"
  by (simp add: ReadLine_def EOL_def session_with_def Buffer_ReadString_def removeEOL_def
        CR_def LF_def EOL_DEFAULT_def spec_line_def)


section \<open>Sending a file\<close>

text \<open>No iteration of the loop panics on a slice expression, whatever the file, the session and the transport.\<close>

lemma sendLoop_no_slice_panic:
  "fst (sendLoop pw sp fl sentBytes ws) \<noteq> Panic SliceBoundsOutOfRange"
proof (induction pw sp fl sentBytes ws rule: sendLoop.induct)
  case (1 pw sp fl sentBytes ws)
  show ?case
  proof (cases "sentBytes \<le> length fl")
    case False
    then show ?thesis by (simp add: sendLoop.simps)
  next
    case True
    then show ?thesis
      using "1.IH"
      by (subst sendLoop.simps)
         (auto simp: slice_from_def slice_def split: option.splits prod.splits)
  qed
qed

lemma sendLoop_done:
  "length fl < sentBytes \<Longrightarrow> sendLoop pw sp fl sentBytes ws = (Return () None, sp, ws)"
  by (simp add: sendLoop.simps)

text \<open>A run that returns nil from \<open>sentBytes \<le> len(file)\<close> has written the next chunk and gone on.\<close>

lemma sendLoop_step:
  assumes "sentBytes \<le> length fl"
    and "sendLoop pw sp fl sentBytes ws = (Return () None, sp', ws')"
  shows "\<exists>p n p'. port sp = Some p \<and> pw p (take q (drop sentBytes fl)) = ((n, None), p') \<and>
           sendLoop pw (sp\<lparr>port := Some p'\<rparr>) fl (sentBytes + q)
             (ws @ [take q (drop sentBytes fl)]) = (Return () None, sp', ws')"
  using assms
  by (subst (asm) sendLoop.simps)
     (auto simp: slice_from_def slice_def split: option.splits prod.splits if_splits)

text \<open>
  The chunks of a run that returns nil: they make up the rest of the file,
  all but the last are \<open>q\<close> bytes long, the last has the remaining
  \<open>(len(file) - sentBytes) mod q\<close> bytes, and there is one more chunk than
  \<open>q\<close> goes into the rest.
\<close>

lemma sendLoop_chunks:
  assumes "sendLoop pw sp fl sentBytes ws = (Return () None, sp', ws')"
    and "sentBytes \<le> length fl"
  shows "\<exists>cs. ws' = ws @ cs \<and> cs \<noteq> [] \<and> concat cs = drop sentBytes fl \<and>
              (\<forall>c\<in>set (butlast cs). length c = q) \<and>
              length (last cs) = (length fl - sentBytes) mod q \<and>
              length cs = (length fl - sentBytes) div q + 1"
  using assms
proof (induction pw sp fl sentBytes ws rule: sendLoop.induct)
  case (1 pw sp fl sentBytes ws)
  let ?data = "take q (drop sentBytes fl)"
  obtain p n p' where p: "port sp = Some p" and w: "pw p ?data = ((n, None), p')"
    and rec: "sendLoop pw (sp\<lparr>port := Some p'\<rparr>) fl (sentBytes + q) (ws @ [?data])
                = (Return () None, sp', ws')"
    using sendLoop_step [OF "1.prems"(2) "1.prems"(1)] by blast
  show ?case
  proof (cases "sentBytes + q \<le> length fl")
    case False
    then have w1: "ws' = ws @ [?data]"
      using rec by (simp add: sendLoop_done)
    have short: "length fl - sentBytes < q"
      using False by (simp add: q_def)
    have c1: "concat [?data] = drop sentBytes fl"
      using short by simp
    have c2: "length (last [?data]) = (length fl - sentBytes) mod q"
      using short by simp
    have c3: "length [?data] = (length fl - sentBytes) div q + 1"
      using short by simp
    have c4: "\<forall>c\<in>set (butlast [?data]). length c = q"
      by simp
    have c5: "[?data] \<noteq> []"
      by simp
    show ?thesis
    proof (intro exI conjI)
      show "ws' = ws @ [?data]" by (rule w1)
      show "[?data] \<noteq> []" by (rule c5)
      show "concat [?data] = drop sentBytes fl" by (rule c1)
      show "\<forall>c\<in>set (butlast [?data]). length c = q" by (rule c4)
      show "length (last [?data]) = (length fl - sentBytes) mod q" by (rule c2)
      show "length [?data] = (length fl - sentBytes) div q + 1" by (rule c3)
    qed
  next
    case True
    have sl: "slice_from fl sentBytes = Some (drop sentBytes fl)"
      using "1.prems"(2) by (simp add: slice_from_def)
    have dat: "(if q < length (drop sentBytes fl) then slice fl sentBytes (sentBytes + q)
                else slice_from fl sentBytes) = Some ?data"
      using True by (auto simp: slice_def slice_from_def)
    obtain cs where cs: "ws' = (ws @ [?data]) @ cs" "cs \<noteq> []"
        "concat cs = drop (sentBytes + q) fl"
        "\<forall>c\<in>set (butlast cs). length c = q"
        "length (last cs) = (length fl - (sentBytes + q)) mod q"
        "length cs = (length fl - (sentBytes + q)) div q + 1"
      using "1.IH" [OF "1.prems"(2) sl dat p w [symmetric] refl refl rec True] by blast
    have len: "length ?data = q"
      using True by simp
    have d1: "concat (?data # cs) = drop sentBytes fl"
      using cs(3) by (simp add: add.commute [of sentBytes q] flip: drop_drop)
    have more: "length fl - sentBytes = (length fl - (sentBytes + q)) + q"
      using True by simp
    have md: "(length fl - sentBytes) mod q = (length fl - (sentBytes + q)) mod q"
      by (subst more) (rule mod_add_self2)
    have dv: "(length fl - sentBytes) div q = (length fl - (sentBytes + q)) div q + 1"
      by (subst more) (simp add: q_def)
    have d2: "ws' = ws @ (?data # cs)"
      using cs(1) by simp
    have d3: "\<forall>c\<in>set (butlast (?data # cs)). length c = q"
      using cs(2,4) len by simp
    have d4: "length (last (?data # cs)) = (length fl - sentBytes) mod q"
      using cs(2,5) md by simp
    have d5: "length (?data # cs) = (length fl - sentBytes) div q + 1"
      using cs(6) dv by simp
    show ?thesis
    proof (intro exI conjI)
      show "ws' = ws @ (?data # cs)" by (rule d2)
      show "?data # cs \<noteq> []" by simp
      show "concat (?data # cs) = drop sentBytes fl" by (rule d1)
      show "\<forall>c\<in>set (butlast (?data # cs)). length c = q" by (rule d3)
      show "length (last (?data # cs)) = (length fl - sentBytes) mod q" by (rule d4)
      show "length (?data # cs) = (length fl - sentBytes) div q + 1" by (rule d5)
    qed
  qed
qed

text \<open>With a transport in the session whose \<open>Write\<close> never fails, the loop returns nil.\<close>

lemma sendLoop_succeeds:
  "port sp \<noteq> None \<Longrightarrow> \<forall>p d. snd (fst (pw p d)) = None \<Longrightarrow>
   fst (sendLoop pw sp fl sentBytes ws) = Return () None"
proof (induction pw sp fl sentBytes ws rule: sendLoop.induct)
  case (1 pw sp fl sentBytes ws)
  show ?case
  proof (cases "sentBytes \<le> length fl")
    case False
    then show ?thesis by (simp add: sendLoop.simps)
  next
    case True
    let ?data = "take q (drop sentBytes fl)"
    obtain p where p: "port sp = Some p"
      using "1.prems"(1) by blast
    obtain n p' where w: "pw p ?data = ((n, None), p')"
      using "1.prems"(2) by (metis prod.collapse)
    have sl: "slice_from fl sentBytes = Some (drop sentBytes fl)"
      using True by (simp add: slice_from_def)
    have dat: "(if q < length (drop sentBytes fl) then slice fl sentBytes (sentBytes + q)
                else slice_from fl sentBytes) = Some ?data"
      using True by (auto simp: slice_def slice_from_def)
    have ih: "fst (sendLoop pw (sp\<lparr>port := Some p'\<rparr>) fl (sentBytes + q) (ws @ [?data]))
                = Return () None"
      using "1.IH" [OF True sl dat p w [symmetric] refl refl] "1.prems"(2) by simp
    have "sendLoop pw sp fl sentBytes ws
            = sendLoop pw (sp\<lparr>port := Some p'\<rparr>) fl (sentBytes + q) (ws @ [?data])"
      by (subst sendLoop.simps)
         (simp only: True if_True sl dat [unfolded sl] p w option.case prod.case)
    then show ?thesis
      using ih by simp
  qed
qed

text \<open>Two runs: a file of 600 bytes and a file of 512 bytes, on a transport that accepts the data.\<close>

lemma SendFile_600_bytes:
  "SendFile (\<lambda>_. Inr (replicate 600 7)) acceptWrite (session_with []) ''fw.bin''
     = (Return () None, (session_with [])\<lparr>port := Some 600\<rparr>, [replicate 512 7, replicate 88 7])"
  by (simp add: SendFile_def sendLoop.simps slice_from_def slice_def q_def session_with_def
        acceptWrite_def)

lemma SendFile_512_bytes:
  "SendFile (\<lambda>_. Inr (replicate 512 0)) acceptWrite (session_with []) ''fw.bin''
     = (Return () None, (session_with [])\<lparr>port := Some 512\<rparr>, [replicate 512 0, []])"
  by (simp add: SendFile_def sendLoop.simps slice_from_def slice_def q_def session_with_def
        acceptWrite_def)

text \<open>
  A run on a transport whose \<open>Write\<close> fails: \<open>SendFile\<close> returns the
  transport's error after the first chunk and hands over nothing more.
\<close>

lemma SendFile_write_error:
  "SendFile (\<lambda>_. Inr (replicate 600 7)) rejectWrite (session_with []) ''fw.bin''
     = (Return () (Some (ErrForeign ''write failed'')), session_with [], [replicate 512 7])"
  by (simp add: SendFile_def sendLoop.simps slice_from_def slice_def q_def session_with_def
        rejectWrite_def)

text \<open>
  Claim C4 as it is worded fails: there is no file, session and transport
  for which the loop ends in a slice-bounds panic.
\<close>

theorem sendLoop_never_out_of_range:
  "\<not> (\<exists>pw (sp :: 'p SerialPort) fl. fst (sendLoop pw sp fl 0 []) = Panic SliceBoundsOutOfRange)"
  by (simp add: sendLoop_no_slice_panic)

text \<open>
  Claim C4, as the code has it.  \<open>SendFile\<close> never slices out of range:
  the loop runs only while \<open>sentBytes \<le> len(file)\<close>, where
  \<open>file[sentBytes:]\<close> is in range, and takes \<open>file[sentBytes:sentBytes+q]\<close>
  only when more than \<open>q\<close> bytes are left.  What advancing by the full
  \<open>q\<close> on the last chunk does is to the number of writes: a call that
  returns nil has made \<open>len(file) div q + 1\<close> of them, the last of
  \<open>len(file) mod q\<close> bytes, which is none when the size is a multiple of
  \<open>q\<close>.
\<close>

theorem SendFile_slices_in_range:
  "fst (SendFile readFile pw sp path) \<noteq> Panic SliceBoundsOutOfRange \<and>
   (readFile path = Inr fl \<and> SendFile readFile pw sp path = (Return () None, sp', ws) \<longrightarrow>
      length ws = length fl div q + 1 \<and> length (last ws) = length fl mod q)"
proof (intro conjI impI)
  show "fst (SendFile readFile pw sp path) \<noteq> Panic SliceBoundsOutOfRange"
    by (cases "readFile path") (simp_all add: SendFile_def sendLoop_no_slice_panic)
next
  assume a: "readFile path = Inr fl \<and> SendFile readFile pw sp path = (Return () None, sp', ws)"
  then have r: "readFile path = Inr fl"
    and s: "SendFile readFile pw sp path = (Return () None, sp', ws)"
    by simp_all
  have run: "sendLoop pw sp fl 0 [] = (Return () None, sp', ws)"
    using s by (simp add: SendFile_def r)
  from sendLoop_chunks [OF run] show "length ws = length fl div q + 1"
    by auto
  from sendLoop_chunks [OF run] show "length (last ws) = length fl mod q"
    by auto
qed

theorem SendFile_slices_in_range_witness:
  "fst (SendFile (\<lambda>_. Inr (replicate 512 0)) acceptWrite (session_with []) ''fw.bin'')
     \<noteq> Panic SliceBoundsOutOfRange \<and>
   SendFile (\<lambda>_. Inr (replicate 512 0)) acceptWrite (session_with []) ''fw.bin''
     = (Return () None, (session_with [])\<lparr>port := Some 512\<rparr>, [replicate 512 0, []]) \<and>
   length [replicate 512 (0 :: byte), []] = length (replicate 512 (0 :: byte)) div q + 1 \<and>
   length (last [replicate 512 (0 :: byte), []]) = length (replicate 512 (0 :: byte)) mod q"
  using SendFile_slices_in_range [of "\<lambda>_. Inr (replicate 512 0)" acceptWrite "session_with []"
      "''fw.bin''" "replicate 512 0" "(session_with [])\<lparr>port := Some 512\<rparr>"
      "[replicate 512 0, []]"] SendFile_512_bytes
  by simp

text \<open>
  Claim C10.  Take a readable file.  When \<open>SendFile\<close> returns nil, the
  chunks it handed to the transport's \<open>Write\<close> concatenate to the file,
  and every chunk but the last has \<open>q\<close> bytes; if the size is not a
  multiple of \<open>q\<close> no chunk is empty; if it is (the empty file too), the
  last chunk is empty and the chunks before it are already the whole file.
  And \<open>SendFile\<close> does return nil when the session holds a transport
  whose \<open>Write\<close> does not fail.
\<close>

theorem SendFile_chunks:
  assumes "readFile path = Inr fl"
  shows "(SendFile readFile pw sp path = (Return () None, sp', ws) \<longrightarrow>
            concat ws = fl \<and> (\<forall>c\<in>set (butlast ws). length c = q) \<and>
            (if q dvd length fl then ws \<noteq> [] \<and> last ws = [] \<and> concat (butlast ws) = fl
             else [] \<notin> set ws)) \<and>
         (port sp \<noteq> None \<and> (\<forall>p d. snd (fst (pw p d)) = None) \<longrightarrow>
            fst (SendFile readFile pw sp path) = Return () None)"
proof (intro conjI impI)
  assume "port sp \<noteq> None \<and> (\<forall>p d. snd (fst (pw p d)) = None)"
  then show "fst (SendFile readFile pw sp path) = Return () None"
    using assms by (simp add: SendFile_def sendLoop_succeeds)
next
  assume "SendFile readFile pw sp path = (Return () None, sp', ws)"
  then have run: "sendLoop pw sp fl 0 [] = (Return () None, sp', ws)"
    using assms by (simp add: SendFile_def)
  have ne: "ws \<noteq> []" and cat: "concat ws = fl"
    and full: "\<forall>c\<in>set (butlast ws). length c = q"
    and lst: "length (last ws) = length fl mod q"
    using sendLoop_chunks [OF run] by auto
  show "concat ws = fl" by (rule cat)
  show "\<forall>c\<in>set (butlast ws). length c = q" by (rule full)
  have parts: "ws = butlast ws @ [last ws]"
    using ne by simp
  show "if q dvd length fl then ws \<noteq> [] \<and> last ws = [] \<and> concat (butlast ws) = fl
        else [] \<notin> set ws"
  proof (cases "q dvd length fl")
    case True
    then have e: "last ws = []"
      using lst by simp
    have "concat ws = concat (butlast ws) @ last ws"
      by (subst parts) simp
    then have "concat (butlast ws) = fl"
      using e cat by simp
    then show ?thesis
      using True ne e by simp
  next
    case False
    then have "last ws \<noteq> []"
      using lst by (auto simp: mod_eq_0_iff_dvd)
    moreover have "[] \<notin> set (butlast ws)"
      using full by (auto simp: q_def)
    moreover have "set ws = set (butlast ws) \<union> {last ws}"
      by (subst parts) simp
    ultimately show ?thesis
      using False by simp
  qed
qed

theorem SendFile_chunks_witness:
  "port (session_with []) \<noteq> None \<and> (\<forall>p d. snd (fst (acceptWrite p d)) = None) \<and>
   SendFile (\<lambda>_. Inr (replicate 600 7)) acceptWrite (session_with []) ''fw.bin''
     = (Return () None, (session_with [])\<lparr>port := Some 600\<rparr>, [replicate 512 7, replicate 88 7]) \<and>
   concat [replicate 512 7, replicate 88 7] = replicate 600 (7 :: byte) \<and>
   \<not> q dvd length (replicate 600 (7 :: byte)) \<and>
   [] \<notin> set [replicate 512 (7 :: byte), replicate 88 7] \<and>
   SendFile (\<lambda>_. Inr (replicate 512 0)) acceptWrite (session_with []) ''fw.bin''
     = (Return () None, (session_with [])\<lparr>port := Some 512\<rparr>, [replicate 512 0, []]) \<and>
   q dvd length (replicate 512 (0 :: byte)) \<and>
   last [replicate 512 (0 :: byte), []] = [] \<and>
   concat (butlast [replicate 512 0, []]) = replicate 512 (0 :: byte)"
proof -
  have a: "(\<lambda>_. Inr (replicate 600 (7::byte))) ''fw.bin'' = (Inr (replicate 600 7) :: error + byte list)"
    and b: "(\<lambda>_. Inr (replicate 512 (0::byte))) ''fw.bin'' = (Inr (replicate 512 0) :: error + byte list)"
    by simp_all
  have nd: "\<not> q dvd length (replicate 600 (7 :: byte))" and d: "q dvd length (replicate 512 (0 :: byte))"
    by (simp_all add: q_def)
  show ?thesis
    using SendFile_chunks [OF a, where pw = acceptWrite and sp = "session_with []"
        and sp' = "(session_with [])\<lparr>port := Some 600\<rparr>"
        and ws = "[replicate 512 7, replicate 88 7]"]
      SendFile_chunks [OF b, where pw = acceptWrite and sp = "session_with []"
        and sp' = "(session_with [])\<lparr>port := Some 512\<rparr>"
        and ws = "[replicate 512 0, []]"]
      SendFile_600_bytes SendFile_512_bytes nd d
    by (simp add: session_with_def acceptWrite_def)
qed


end
